theory Spec2Isabelle
  imports Main "HOL-Library.Word"
begin

section \<open>Contact point hooks of the alerting console (useContactPoints.tsx)\<close>

text \<open>
  The hooks of \<^verbatim>\<open>useContactPoints.tsx\<close> are embedded as pure functions. What a hook
  reads from the query library (the current result of a query: its \<^verbatim>\<open>isLoading\<close> flag
  and its \<^verbatim>\<open>data\<close>) is an argument of the function; what an operation sends to a
  backend is returned as the list of requests it issued, in order, next to the value its
  promise settles with (\<open>Inl\<close> a rejection, \<open>Inr\<close> the fulfilled value, \<open>None\<close> for
  \<^verbatim>\<open>undefined\<close>).
\<close>

subsection \<open>JavaScript values\<close>

text \<open>A JavaScript string is a sequence of UTF-16 code units.\<close>

type_synonym jsstring = "16 word list"

text \<open>The code units of an ASCII literal.\<close>

definition js :: "string \<Rightarrow> jsstring" where
  "js s = map (\<lambda>c. word_of_nat (of_char c)) s"

text \<open>
  Truthiness of an optional string, as \<^verbatim>\<open>!id\<close>, \<^verbatim>\<open>id && ...\<close> and
  \<^verbatim>\<open>if (originalName)\<close> test it: \<^verbatim>\<open>undefined\<close> and the empty string are falsy.
\<close>

fun truthy :: "jsstring option \<Rightarrow> bool" where
  "truthy None = False"
| "truthy (Some s) = (s \<noteq> [])"

subsection \<open>Query results\<close>

text \<open>
  The part of a query result that the hooks read. A spread \<^verbatim>\<open>{...result, f: v}\<close> is a
  record update: every other field, also those of the extension, is kept.
\<close>

record 'a query_result =
  isLoading :: bool
  data :: "'a option"

text \<open>The result of \<^verbatim>\<open>useGrafanaContactPoints\<close>: the list response and \<^verbatim>\<open>contactPoints\<close>.\<close>

record ('a, 'b) contact_points_result = "'a query_result" +
  contactPoints :: "'b list"

text \<open>
  \<^verbatim>\<open>useOnCallIntegrations\<close>: the integrations query when the OnCall plugin is installed,
  otherwise the loading state of the plugin bridge and no data.
\<close>

definition useOnCallIntegrations ::
  "bool \<Rightarrow> bool \<Rightarrow> 'a query_result \<Rightarrow> 'a query_result" where
  "useOnCallIntegrations installed loading oncallIntegrationsResponse =
     (if installed then oncallIntegrationsResponse
      else \<lparr>isLoading = loading, data = None\<rparr>)"

text \<open>
  \<^verbatim>\<open>useGrafanaContactPoints\<close> (the body of its \<^verbatim>\<open>useMemo\<close>).
  \<^verbatim>\<open>enhanceContactPointsWithMetadata\<close> is imported from \<^verbatim>\<open>./utils\<close> and is a
  parameter here; its arguments are, in the order of the source's object literal, the
  data of the status, notifier, OnCall, list and configuration queries.
  \<^verbatim>\<open>!contactPointsListResponse.data\<close> holds exactly when the data is \<^verbatim>\<open>undefined\<close>:
  an array, also an empty one, is truthy.
\<close>

definition useGrafanaContactPoints ::
  "('s option \<Rightarrow> 'n option \<Rightarrow> 'o option \<Rightarrow> 'c list \<Rightarrow> 'g option \<Rightarrow> 'b list) \<Rightarrow>
   'o query_result \<Rightarrow> 'n query_result \<Rightarrow> ('c list) query_result \<Rightarrow>
   's query_result \<Rightarrow> 'g query_result \<Rightarrow> ('c list, 'b) contact_points_result" where
  "useGrafanaContactPoints enhanceContactPointsWithMetadata onCallResponse alertNotifiers
     contactPointsListResponse contactPointsStatusResponse alertmanagerConfigResponse =
     (let isLoading' = isLoading onCallResponse \<or> isLoading alertNotifiers
                       \<or> isLoading contactPointsListResponse
      in case (isLoading', data contactPointsListResponse) of
           (False, Some cps) \<Rightarrow>
             query_result.extend contactPointsListResponse
               (contact_points_result.fields
                  (enhanceContactPointsWithMetadata
                     (data contactPointsStatusResponse) (data alertNotifiers)
                     (data onCallResponse) cps (data alertmanagerConfigResponse)))
         | _ \<Rightarrow>
             query_result.extend (contactPointsListResponse\<lparr>isLoading := True\<rparr>)
               (contact_points_result.fields []))"

subsection \<open>Contact points and receiver resources\<close>

text \<open>
  The type declarations of the contact point and of the receiver resource are imported
  by the file, not declared in it. Each record below has the fields that the file reads
  or writes; a field is optional where the file treats it as optional (\<^verbatim>\<open>?.\<close>,
  \<^verbatim>\<open>|| []\<close>, a conditional spread) and \<open>None\<close> stands for \<^verbatim>\<open>undefined\<close>. Fields
  that the file never names live in the extension of the record.
\<close>

datatype js_error = TypeError | URIError

text \<open>An integration config; \<^verbatim>\<open>item.provenance\<close> is the only field the file reads.\<close>

record GrafanaManagedReceiverConfig =
  provenance :: "jsstring option"

text \<open>The metadata of a receiver resource: \<^verbatim>\<open>metadata.name\<close> and \<^verbatim>\<open>metadata.uid\<close>.\<close>

record ObjectMeta =
  name :: "jsstring option"
  uid :: "jsstring option"

record 'c ReceiverSpec =
  title :: jsstring
  integrations :: "'c list"

text \<open>
  \<^verbatim>\<open>K8sReceiver\<close>. \<^verbatim>\<open>grafanaContactPointToK8sReceiver\<close> builds one without
  \<^verbatim>\<open>metadata\<close> when it is given no id, so the field is optional.
\<close>

record 'c K8sReceiver =
  metadata :: "ObjectMeta option"
  spec :: "'c ReceiverSpec"

record 'k ReceiverList =
  items :: "'k list"

text \<open>
  \<^verbatim>\<open>GrafanaManagedContactPoint\<close>, the common shape; a \<^verbatim>\<open>Receiver\<close> of the
  configuration document is passed where one is expected (line 366), so the same record
  serves for both. The field \<^verbatim>\<open>id\<close> is named \<open>id'\<close> here.
\<close>

record 'c GrafanaManagedContactPoint =
  id' :: "jsstring option"
  name :: jsstring
  provisioned :: "bool option"
  grafana_managed_receiver_configs :: "'c list option"

text \<open>
  \<^verbatim>\<open>parseK8sReceiver\<close>. Reading \<^verbatim>\<open>item.metadata.uid\<close> of an item without metadata
  raises a TypeError. \<^verbatim>\<open>isK8sEntityProvisioned\<close> is imported from
  \<^verbatim>\<open>utils/k8s/utils\<close> and is a parameter here.
\<close>

definition parseK8sReceiver ::
  "(('c, 'z) K8sReceiver_scheme \<Rightarrow> bool) \<Rightarrow> ('c, 'z) K8sReceiver_scheme
   \<Rightarrow> js_error + 'c GrafanaManagedContactPoint" where
  "parseK8sReceiver isK8sEntityProvisioned item =
     (case metadata item of
        None \<Rightarrow> Inl TypeError
      | Some m \<Rightarrow>
          Inr \<lparr>id' = uid m,
               name = title (spec item),
               provisioned = Some (isK8sEntityProvisioned item),
               grafana_managed_receiver_configs = Some (integrations (spec item))\<rparr>)"

text \<open>\<^verbatim>\<open>Array.prototype.map\<close> with a callback that may raise: the first exception ends it.\<close>

fun map_raise :: "('a \<Rightarrow> 'e + 'b) \<Rightarrow> 'a list \<Rightarrow> 'e + 'b list" where
  "map_raise f [] = Inr []"
| "map_raise f (x # xs) =
     (case f x of
        Inl e \<Rightarrow> Inl e
      | Inr y \<Rightarrow> (case map_raise f xs of Inl e \<Rightarrow> Inl e | Inr ys \<Rightarrow> Inr (y # ys)))"

text \<open>
  \<^verbatim>\<open>useK8sContactPoints\<close>: the \<^verbatim>\<open>selectFromResult\<close> of the receiver list query,
  \<^verbatim>\<open>data?.items.map((item) => parseK8sReceiver(item))\<close>. The data changes its type, so
  the result is built anew from the fields of the query result that the hooks read.
\<close>

definition useK8sContactPoints ::
  "(('c, 'z) K8sReceiver_scheme \<Rightarrow> bool) \<Rightarrow>
   (('c, 'z) K8sReceiver_scheme ReceiverList) query_result \<Rightarrow>
   js_error + ('c GrafanaManagedContactPoint list) query_result" where
  "useK8sContactPoints isK8sEntityProvisioned result =
     (case data result of
        None \<Rightarrow> Inr \<lparr>isLoading = isLoading result, data = None\<rparr>
      | Some d \<Rightarrow>
          (case map_raise (parseK8sReceiver isK8sEntityProvisioned) (items d) of
             Inl e \<Rightarrow> Inl e
           | Inr cps \<Rightarrow> Inr \<lparr>isLoading = isLoading result, data = Some cps\<rparr>))"

text \<open>
  The \<^verbatim>\<open>selectFromResult\<close> of the legacy list query (lines 121 to 129): each item is
  spread and its \<^verbatim>\<open>provisioned\<close> field set to
  \<^verbatim>\<open>item.grafana_managed_receiver_configs?.some((item) => item.provenance)\<close>, which is
  \<^verbatim>\<open>undefined\<close> when the item has no configs.
\<close>

definition markProvisioned ::
  "('z GrafanaManagedReceiverConfig_scheme, 'y) GrafanaManagedContactPoint_scheme \<Rightarrow>
   ('z GrafanaManagedReceiverConfig_scheme, 'y) GrafanaManagedContactPoint_scheme" where
  "markProvisioned item =
     item\<lparr>provisioned :=
       map_option (list_ex (\<lambda>item. truthy (provenance item)))
         (grafana_managed_receiver_configs item)\<rparr>"

definition selectContactPointsList ::
  "(('z GrafanaManagedReceiverConfig_scheme, 'y) GrafanaManagedContactPoint_scheme list)
     query_result \<Rightarrow>
   (('z GrafanaManagedReceiverConfig_scheme, 'y) GrafanaManagedContactPoint_scheme list)
     query_result" where
  "selectContactPointsList result =
     result\<lparr>data := map_option (map markProvisioned) (data result)\<rparr>"

text \<open>
  \<^verbatim>\<open>useFetchGrafanaContactPoints\<close>: both queries are evaluated, the legacy one first, and
  \<^verbatim>\<open>useK8sApi\<close> (the value of \<^verbatim>\<open>shouldUseK8sApi\<close> for the Grafana alertmanager)
  chooses the response.
\<close>

definition useFetchGrafanaContactPoints ::
  "(('z GrafanaManagedReceiverConfig_scheme, 'x) K8sReceiver_scheme \<Rightarrow> bool) \<Rightarrow> bool \<Rightarrow>
   ('z GrafanaManagedReceiverConfig_scheme GrafanaManagedContactPoint list) query_result \<Rightarrow>
   (('z GrafanaManagedReceiverConfig_scheme, 'x) K8sReceiver_scheme ReceiverList)
     query_result \<Rightarrow>
   js_error +
   ('z GrafanaManagedReceiverConfig_scheme GrafanaManagedContactPoint list) query_result"
  where
  "useFetchGrafanaContactPoints isK8sEntityProvisioned useK8sApi listResult k8sResult =
     (let grafanaResponse = selectContactPointsList listResult
      in case useK8sContactPoints isK8sEntityProvisioned k8sResult of
           Inl e \<Rightarrow> Inl e
         | Inr k8sResponse \<Rightarrow> Inr (if useK8sApi then k8sResponse else grafanaResponse))"

text \<open>
  \<^verbatim>\<open>grafanaContactPointToK8sReceiver\<close>: \<^verbatim>\<open>...(id && {metadata: {name: id}})\<close> adds
  the metadata only for a truthy id, and \<^verbatim>\<open>|| []\<close> replaces absent configs by the
  empty list (an array, also an empty one, is truthy).
\<close>

definition grafanaContactPointToK8sReceiver ::
  "('c, 'y) GrafanaManagedContactPoint_scheme \<Rightarrow> jsstring option \<Rightarrow> 'c K8sReceiver" where
  "grafanaContactPointToK8sReceiver contactPoint ident =
     \<lparr>metadata = (if truthy ident then Some \<lparr>ObjectMeta.name = ident, uid = None\<rparr>
                   else None),
      spec = \<lparr>title = name contactPoint,
              integrations = (case grafana_managed_receiver_configs contactPoint of
                                None \<Rightarrow> [] | Some cs \<Rightarrow> cs)\<rparr>\<rparr>"

subsection \<open>The configuration document\<close>

text \<open>
  The legacy configuration: \<^verbatim>\<open>config.alertmanager_config.receivers\<close>, an optional list
  of receivers. Everything else in the document lives in the extensions of the records.
\<close>

record 'r AlertmanagerConfig =
  receivers :: "'r list option"

record ('r, 'a) AlertManagerCortexConfig =
  alertmanager_config :: "('r, 'a) AlertmanagerConfig_scheme"

subsection \<open>decodeURIComponent\<close>









subsection \<open>Looking up one contact point in the configuration\<close>




subsection \<open>Mutations\<close>

text \<open>
  The requests that the operations send, with the arguments of the source:
  the configuration fetch and write of the legacy backend
  (\<^verbatim>\<open>fetchAlertmanagerConfig(alertmanager)\<close>,
  \<^verbatim>\<open>updateAlertManager({selectedAlertmanager, config})\<close>) and the delete, create and
  replace endpoints of the receiver resources
  (\<^verbatim>\<open>deleteReceiver({name, namespace, ...})\<close>,
  \<^verbatim>\<open>createGrafanaContactPoint({namespace, receiver})\<close>,
  \<^verbatim>\<open>replaceGrafanaContactPoint({name, namespace, receiver})\<close>).
\<close>

datatype ('g, 'k) request =
    GetAlertmanagerConfiguration jsstring
  | UpdateAlertmanagerConfiguration jsstring 'g
  | DeleteNamespacedReceiver jsstring jsstring
  | CreateNamespacedReceiver jsstring 'k
  | ReplaceNamespacedReceiver jsstring jsstring 'k

text \<open>
  What the operations get from outside the file: \<^verbatim>\<open>shouldUseK8sApi\<close> and
  \<^verbatim>\<open>getK8sNamespace\<close> (imported from \<^verbatim>\<open>utils/k8s/utils\<close>), the outcome of the
  configuration fetch (\<open>Inl\<close> a failed fetch: its result has no \<^verbatim>\<open>data\<close>, and
  \<^verbatim>\<open>unwrap()\<close> rejects with the error) and the outcome of each mutation, which
  \<^verbatim>\<open>unwrap()\<close> turns into the settlement of the promise.
\<close>

record ('e, 'g, 'k, 'u) api =
  shouldUseK8sApi :: "jsstring \<Rightarrow> bool"
  getK8sNamespace :: jsstring
  getAlertmanagerConfiguration :: "jsstring \<Rightarrow> 'e + 'g"
  mutation :: "('g, 'k) request \<Rightarrow> 'e + 'u"

text \<open>
  An operation returns the requests it sent, in order, and the settlement of its promise:
  \<open>Inl\<close> a rejection, \<open>Inr None\<close> fulfilled with \<^verbatim>\<open>undefined\<close>, \<open>Inr (Some u)\<close>
  fulfilled with the response \<open>u\<close>.
\<close>

type_synonym ('e, 'g, 'k, 'u) outcome = "('g, 'k) request list \<times> ('e + 'u option)"

definition unwrap :: "'e + 'u \<Rightarrow> 'e + 'u option" where
  "unwrap response = (case response of Inl e \<Rightarrow> Inl e | Inr u \<Rightarrow> Inr (Some u))"

text \<open>
  The recipe given to \<^verbatim>\<open>produce\<close> in \<^verbatim>\<open>useDeleteContactPoint\<close>: lodash's
  \<^verbatim>\<open>remove\<close> takes out of the array every element for which the predicate holds and
  keeps the others in their order; without a receivers array it works on a fresh
  \<^verbatim>\<open>[]\<close> and the document stays as it is.
\<close>

definition removeReceiver ::
  "jsstring \<Rightarrow>
   (('c, 'y) GrafanaManagedContactPoint_scheme, 'a, 'b) AlertManagerCortexConfig_scheme \<Rightarrow>
   (('c, 'y) GrafanaManagedContactPoint_scheme, 'a, 'b) AlertManagerCortexConfig_scheme"
  where
  "removeReceiver name' draft =
     draft\<lparr>alertmanager_config :=
       (alertmanager_config draft)\<lparr>receivers :=
          map_option (filter (\<lambda>receiver. \<not> (name receiver = name')))
            (receivers (alertmanager_config draft))\<rparr>\<rparr>"

text \<open>
  \<^verbatim>\<open>useDeleteContactPoint({alertmanager})\<close> applied to \<^verbatim>\<open>{name}\<close>. The structured
  branch sends the delete request; the legacy branch fetches the configuration, returns
  at once when the fetch gave no data, and otherwise writes the new configuration.
\<close>

definition useDeleteContactPoint ::
  "('e, (('c, 'y) GrafanaManagedContactPoint_scheme, 'a, 'b) AlertManagerCortexConfig_scheme,
    'k, 'u) api \<Rightarrow> jsstring \<Rightarrow> jsstring \<Rightarrow>
   ('e, (('c, 'y) GrafanaManagedContactPoint_scheme, 'a, 'b) AlertManagerCortexConfig_scheme,
    'k, 'u) outcome" where
  "useDeleteContactPoint api alertmanager name' =
     (if shouldUseK8sApi api alertmanager then
        (let namespace = getK8sNamespace api;
             req = DeleteNamespacedReceiver name' namespace
         in ([req], unwrap (mutation api req)))
      else
        (case getAlertmanagerConfiguration api alertmanager of
           Inl e \<Rightarrow> ([GetAlertmanagerConfiguration alertmanager], Inr None)
         | Inr data' \<Rightarrow>
             (let newConfig = removeReceiver name' data';
                  req = UpdateAlertmanagerConfiguration alertmanager newConfig
              in ([GetAlertmanagerConfiguration alertmanager, req],
                  unwrap (mutation api req)))))"

text \<open>
  \<^verbatim>\<open>useCreateOrUpdateContactPoint({alertmanager})\<close> applied to
  \<^verbatim>\<open>{contactPoint, originalName, id}\<close>. The operation of the structured backend
  (lines 362 to 384) is embedded in full. The operation of the legacy backend (lines 386
  to 403) runs through functions that the file imports (\<^verbatim>\<open>createOnCallIntegrations\<close>,
  \<^verbatim>\<open>updateConfigWithReceiver\<close>, \<^verbatim>\<open>updateAlertManagerConfigAction\<close>); it is the
  parameter \<open>legacy\<close>.
\<close>

definition useCreateOrUpdateContactPoint ::
  "('e, 'g, 'c K8sReceiver, 'u) api \<Rightarrow>
   (('c, 'y) GrafanaManagedContactPoint_scheme \<Rightarrow> jsstring option \<Rightarrow>
      ('e, 'g, 'c K8sReceiver, 'u) outcome) \<Rightarrow>
   jsstring \<Rightarrow> ('c, 'y) GrafanaManagedContactPoint_scheme \<Rightarrow> jsstring option \<Rightarrow>
   jsstring option \<Rightarrow> ('e, 'g, 'c K8sReceiver, 'u) outcome" where
  "useCreateOrUpdateContactPoint api legacy alertmanager contactPoint originalName ident =
     (if shouldUseK8sApi api alertmanager then
        (let namespace = getK8sNamespace api;
             contactPointToUse = grafanaContactPointToK8sReceiver contactPoint ident
         in case (if truthy ident then ident else None) of
              None \<Rightarrow>
                (let req = CreateNamespacedReceiver namespace contactPointToUse
                 in ([req], unwrap (mutation api req)))
            | Some i \<Rightarrow>
                if truthy originalName then
                  (let req = ReplaceNamespacedReceiver i namespace contactPointToUse
                   in ([req], unwrap (mutation api req)))
                else ([], Inr None))
      else legacy contactPoint originalName)"

text \<open>The message \<^verbatim>\<open>`Contact point already exists with name "${value}"`\<close>.\<close>

definition duplicateMessage :: "jsstring \<Rightarrow> jsstring" where
  "duplicateMessage value =
     js ''Contact point already exists with name '' @ [0x22] @ value @ [0x22]"

text \<open>
  \<^verbatim>\<open>useValidateContactPoint({alertmanager})\<close> applied to
  \<^verbatim>\<open>(value, skipValidation)\<close>. The validator of the structured backend is
  \<^verbatim>\<open>() => undefined\<close>. The legacy one returns \<^verbatim>\<open>undefined\<close> when validation is
  skipped; otherwise it fetches the configuration, \<^verbatim>\<open>unwrap()\<close> rejecting when the
  fetch failed, and looks for a receiver with \<^verbatim>\<open>contactPoint.name === value\<close>. The
  value it settles with is the optional message.
\<close>

definition useValidateContactPoint ::
  "('e, (('c, 'y) GrafanaManagedContactPoint_scheme, 'a, 'b) AlertManagerCortexConfig_scheme,
    'k, 'u) api \<Rightarrow> jsstring \<Rightarrow> jsstring \<Rightarrow> bool \<Rightarrow>
   ((('c, 'y) GrafanaManagedContactPoint_scheme, 'a, 'b) AlertManagerCortexConfig_scheme,
    'k) request list \<times> ('e + jsstring option)" where
  "useValidateContactPoint api alertmanager value skipValidation =
     (if shouldUseK8sApi api alertmanager then ([], Inr None)
      else if skipValidation then ([], Inr None)
      else
        (case getAlertmanagerConfiguration api alertmanager of
           Inl e \<Rightarrow> ([GetAlertmanagerConfiguration alertmanager], Inl e)
         | Inr config \<Rightarrow>
             (let duplicated =
                    (case receivers (alertmanager_config config) of
                       None \<Rightarrow> False
                     | Some rs \<Rightarrow>
                         find (\<lambda>contactPoint. name contactPoint = value) rs \<noteq> None)
              in ([GetAlertmanagerConfiguration alertmanager],
                  Inr (if duplicated then Some (duplicateMessage value) else None)))))"

subsection \<open>Example inputs\<close>

text \<open>
  Concrete inputs at which the theorems below are evaluated: stand-ins for the imported
  functions, two integration configs, contact points, a receiver resource as the server
  sends it, a configuration document and a backend.
\<close>

definition keepContactPoints ::
  "unit option \<Rightarrow> unit option \<Rightarrow> unit option \<Rightarrow> unit list \<Rightarrow> unit option \<Rightarrow> unit list" where
  "keepContactPoints status notifiers onCallIntegrations cps alertmanagerConfiguration = cps"

definition neverProvisioned :: "GrafanaManagedReceiverConfig K8sReceiver \<Rightarrow> bool" where
  "neverProvisioned item = False"

definition plainConfig :: GrafanaManagedReceiverConfig where
  "plainConfig = \<lparr>provenance = None\<rparr>"

definition apiConfig :: GrafanaManagedReceiverConfig where
  "apiConfig = \<lparr>provenance = Some (js ''api'')\<rparr>"

definition contactPointNamed ::
  "string \<Rightarrow> GrafanaManagedReceiverConfig list option \<Rightarrow>
   GrafanaManagedReceiverConfig GrafanaManagedContactPoint" where
  "contactPointNamed n cs =
     \<lparr>id' = None, name = js n, provisioned = None, grafana_managed_receiver_configs = cs\<rparr>"

definition opsResource :: "GrafanaManagedReceiverConfig K8sReceiver" where
  "opsResource =
     \<lparr>metadata = Some \<lparr>ObjectMeta.name = Some (js ''b3Bz''), uid = Some (js ''b3Bz'')\<rparr>,
      spec = \<lparr>title = js ''ops'', integrations = [plainConfig]\<rparr>\<rparr>"

definition configWith ::
  "GrafanaManagedReceiverConfig GrafanaManagedContactPoint list \<Rightarrow>
   (GrafanaManagedReceiverConfig GrafanaManagedContactPoint, unit) AlertManagerCortexConfig"
  where
  "configWith rs = \<lparr>alertmanager_config = \<lparr>receivers = Some rs\<rparr>\<rparr>"

definition backend ::
  "bool \<Rightarrow>
   nat + (GrafanaManagedReceiverConfig GrafanaManagedContactPoint, unit)
           AlertManagerCortexConfig \<Rightarrow>
   (nat, (GrafanaManagedReceiverConfig GrafanaManagedContactPoint, unit)
           AlertManagerCortexConfig,
    GrafanaManagedReceiverConfig K8sReceiver, unit) api" where
  "backend useK8s fetched =
     \<lparr>shouldUseK8sApi = (\<lambda>alertmanager. useK8s),
      getK8sNamespace = js ''default'',
      getAlertmanagerConfiguration = (\<lambda>alertmanager. fetched),
      mutation = (\<lambda>req. Inr ())\<rparr>"

definition noLegacy ::
  "GrafanaManagedReceiverConfig GrafanaManagedContactPoint \<Rightarrow> jsstring option \<Rightarrow>
   (nat, (GrafanaManagedReceiverConfig GrafanaManagedContactPoint, unit)
           AlertManagerCortexConfig,
    GrafanaManagedReceiverConfig K8sReceiver, unit) outcome" where
  "noLegacy contactPoint originalName = ([], Inr None)"

text \<open>
  The fields that a normalized contact point exposes: those whose value is not
  \<^verbatim>\<open>undefined\<close>, under their names in the source.
\<close>

definition exposedFields :: "('c, 'y) GrafanaManagedContactPoint_scheme \<Rightarrow> string list" where
  "exposedFields cp =
     (if id' cp = None then [] else [''id'']) @ [''name'']
     @ (if provisioned cp = None then [] else [''provisioned''])
     @ (if grafana_managed_receiver_configs cp = None then []
        else [''grafana_managed_receiver_configs''])"

section \<open>Properties\<close>

subsection \<open>Helper lemmas\<close>

lemma isLoading_extend:
  "isLoading (query_result.extend r m) = isLoading r"
  by (simp add: query_result.defs)

lemma set_map_raise:
  "map_raise f xs = Inr ys \<Longrightarrow> y \<in> set ys \<Longrightarrow> \<exists>x \<in> set xs. f x = Inr y"
  by (induction xs arbitrary: ys) (auto split: sum.splits)

lemma fetched_k8s:
  assumes "useFetchGrafanaContactPoints prov True listResult k8sResult = Inr r"
    and "data r = Some cps" and "cp \<in> set cps"
  shows "\<exists>d item. data k8sResult = Some d \<and> item \<in> set (items d)
           \<and> parseK8sReceiver prov item = Inr cp"
proof -
  from assms(1) have k: "useK8sContactPoints prov k8sResult = Inr r"
    by (simp add: useFetchGrafanaContactPoints_def split: sum.splits)
  with assms(2) obtain d where d: "data k8sResult = Some d"
    and m: "map_raise (parseK8sReceiver prov) (items d) = Inr cps"
    by (auto simp add: useK8sContactPoints_def split: option.splits sum.splits)
  from set_map_raise[OF m assms(3)] d show ?thesis by blast
qed

lemma fetched_legacy:
  assumes "useFetchGrafanaContactPoints prov False listResult k8sResult = Inr r"
    and "data r = Some cps" and "cp \<in> set cps"
  shows "\<exists>its item. data listResult = Some its \<and> item \<in> set its
           \<and> cp = markProvisioned item"
proof -
  from assms(1) have "r = selectContactPointsList listResult"
    by (simp add: useFetchGrafanaContactPoints_def split: sum.splits)
  with assms(2) obtain its where
    "data listResult = Some its" "cps = map markProvisioned its"
    by (auto simp add: selectContactPointsList_def)
  with assms(3) show ?thesis by auto
qed

lemma markProvisioned_flag:
  "(provisioned (markProvisioned item) = Some True) =
     (\<exists>cs c. grafana_managed_receiver_configs (markProvisioned item) = Some cs
        \<and> c \<in> set cs \<and> truthy (provenance c))"
  by (cases "grafana_managed_receiver_configs item")
     (auto simp add: markProvisioned_def list_ex_iff)

lemma filter_distinct_split:
  assumes "distinct (map f rs)" and "n \<in> set (map f rs)"
  shows "\<exists>ys r zs. rs = ys @ r # zs \<and> f r = n \<and> n \<notin> f ` set (ys @ zs)
           \<and> filter (\<lambda>x. \<not> (f x = n)) rs = ys @ zs"
proof -
  from assms(2) obtain r where "r \<in> set rs" and fr: "f r = n" by auto
  then obtain ys zs where rs: "rs = ys @ r # zs" by (auto dest: split_list)
  from assms(1) rs fr have out: "n \<notin> f ` set ys" "n \<notin> f ` set zs" by auto
  then have "filter (\<lambda>x. \<not> (f x = n)) ys = ys" "filter (\<lambda>x. \<not> (f x = n)) zs = zs"
    by (auto simp add: filter_id_conv)
  with rs fr out have "rs = ys @ r # zs \<and> f r = n \<and> n \<notin> f ` set (ys @ zs)
           \<and> filter (\<lambda>x. \<not> (f x = n)) rs = ys @ zs" by auto
  then show ?thesis by blast
qed


lemma exposed_name: "''name'' \<in> set (exposedFields cp)"
  by (simp add: exposedFields_def)

lemma exposed_provisioned:
  "(''provisioned'' \<in> set (exposedFields cp)) = (provisioned cp \<noteq> None)"
  by (simp add: exposedFields_def)

lemma exposed_configs:
  "(''grafana_managed_receiver_configs'' \<in> set (exposedFields cp))
   = (grafana_managed_receiver_configs cp \<noteq> None)"
  by (simp add: exposedFields_def)









subsection \<open>C1: the loading flag of the enriched list\<close>

text \<open>
  C1 as the spec words it: the flag is true whenever any of the four fetches (list, status,
  notifier metadata, OnCall integrations) is loading. The status fetch is not among the
  flags the hook reads: with the list, the notifiers and the integrations loaded and only
  the status fetch loading, the hook reports \<^verbatim>\<open>isLoading: false\<close>.
\<close>

theorem C1_status_loading_counterexample:
  "isLoading \<lparr>isLoading = True, data = (None :: unit option)\<rparr>
   \<and> \<not> isLoading (useGrafanaContactPoints keepContactPoints
            \<lparr>isLoading = False, data = Some ()\<rparr>
            \<lparr>isLoading = False, data = Some ()\<rparr>
            \<lparr>isLoading = False, data = Some [()]\<rparr>
            \<lparr>isLoading = True, data = None\<rparr>
            \<lparr>isLoading = False, data = None\<rparr>)"
  by (simp add: useGrafanaContactPoints_def isLoading_extend)

text \<open>
  C1, amended: the flag of the enriched list is true exactly when the OnCall integrations,
  the notifier metadata or the contact point list is loading, or the list has no data;
  so it is true whenever one of these three fetches is loading, also when the list fetch
  itself has completed, and the status fetch has no influence on it.
\<close>

theorem C1_isLoading:
  "isLoading (useGrafanaContactPoints enhance onCallResponse alertNotifiers
       contactPointsListResponse contactPointsStatusResponse alertmanagerConfigResponse)
   = (isLoading onCallResponse \<or> isLoading alertNotifiers
      \<or> isLoading contactPointsListResponse \<or> data contactPointsListResponse = None)"
  by (auto simp add: useGrafanaContactPoints_def isLoading_extend Let_def
      split: option.splits bool.splits)

theorem C1_isLoading_witness:
  "isLoading (useGrafanaContactPoints keepContactPoints
       \<lparr>isLoading = False, data = Some ()\<rparr>
       \<lparr>isLoading = True, data = None\<rparr>
       \<lparr>isLoading = False, data = Some [()]\<rparr>
       \<lparr>isLoading = False, data = Some ()\<rparr>
       \<lparr>isLoading = False, data = None\<rparr>)"
  using C1_isLoading [of keepContactPoints
       "\<lparr>isLoading = False, data = Some ()\<rparr>"
       "\<lparr>isLoading = True, data = None\<rparr>"
       "\<lparr>isLoading = False, data = Some [()]\<rparr>"
       "\<lparr>isLoading = False, data = Some ()\<rparr>"
       "\<lparr>isLoading = False, data = None\<rparr>"]
  by simp

subsection \<open>C2: deleting a legacy contact point\<close>

text \<open>
  C2: on the legacy backend, when the fetched configuration has receivers with pairwise
  distinct names and one of them has the given name, the delete operation fetches the
  configuration and writes back the same document with exactly that receiver taken out
  of the list: the receivers before it and after it are unchanged and in their order,
  and none of them has the given name.
\<close>

theorem C2_delete_legacy:
  assumes "\<not> shouldUseK8sApi api alertmanager"
    and "getAlertmanagerConfiguration api alertmanager = Inr config"
    and "receivers (alertmanager_config config) = Some rs"
    and "distinct (map name rs)"
    and "n \<in> set (map name rs)"
  shows "\<exists>ys r zs. rs = ys @ r # zs \<and> name r = n \<and> n \<notin> name ` set (ys @ zs)
           \<and> fst (useDeleteContactPoint api alertmanager n) =
               [GetAlertmanagerConfiguration alertmanager,
                UpdateAlertmanagerConfiguration alertmanager
                  (config\<lparr>alertmanager_config :=
                     (alertmanager_config config)\<lparr>receivers := Some (ys @ zs)\<rparr>\<rparr>)]"
proof -
  from filter_distinct_split[OF assms(4,5)] obtain ys r zs where
    s: "rs = ys @ r # zs" "name r = n" "n \<notin> name ` set (ys @ zs)"
    and f: "filter (\<lambda>x. \<not> (name x = n)) rs = ys @ zs" by blast
  from assms(1,2,3) f have "fst (useDeleteContactPoint api alertmanager n) =
               [GetAlertmanagerConfiguration alertmanager,
                UpdateAlertmanagerConfiguration alertmanager
                  (config\<lparr>alertmanager_config :=
                     (alertmanager_config config)\<lparr>receivers := Some (ys @ zs)\<rparr>\<rparr>)]"
    by (simp add: useDeleteContactPoint_def removeReceiver_def Let_def)
  with s show ?thesis by blast
qed

theorem C2_delete_legacy_witness:
  "\<not> shouldUseK8sApi
       (backend False (Inr (configWith [contactPointNamed ''mail'' None,
          contactPointNamed ''ops'' None, contactPointNamed ''pager'' None])))
       (js ''grafana'')
   \<and> distinct (map name [contactPointNamed ''mail'' None,
          contactPointNamed ''ops'' None, contactPointNamed ''pager'' None])
   \<and> js ''ops'' \<in> set (map name [contactPointNamed ''mail'' None,
          contactPointNamed ''ops'' None, contactPointNamed ''pager'' None])
   \<and> (\<exists>ys r zs.
         [contactPointNamed ''mail'' None, contactPointNamed ''ops'' None,
          contactPointNamed ''pager'' None] = ys @ r # zs
         \<and> name r = js ''ops'' \<and> js ''ops'' \<notin> name ` set (ys @ zs)
         \<and> fst (useDeleteContactPoint
               (backend False (Inr (configWith [contactPointNamed ''mail'' None,
                  contactPointNamed ''ops'' None, contactPointNamed ''pager'' None])))
               (js ''grafana'') (js ''ops''))
           = [GetAlertmanagerConfiguration (js ''grafana''),
              UpdateAlertmanagerConfiguration (js ''grafana'')
                ((configWith [contactPointNamed ''mail'' None,
                    contactPointNamed ''ops'' None, contactPointNamed ''pager'' None])
                 \<lparr>alertmanager_config :=
                    (alertmanager_config (configWith [contactPointNamed ''mail'' None,
                       contactPointNamed ''ops'' None, contactPointNamed ''pager'' None]))
                    \<lparr>receivers := Some (ys @ zs)\<rparr>\<rparr>)])
   \<and> fst (useDeleteContactPoint
         (backend False (Inr (configWith [contactPointNamed ''mail'' None,
            contactPointNamed ''ops'' None, contactPointNamed ''pager'' None])))
         (js ''grafana'') (js ''ops''))
     = [GetAlertmanagerConfiguration (js ''grafana''),
        UpdateAlertmanagerConfiguration (js ''grafana'')
          (configWith [contactPointNamed ''mail'' None, contactPointNamed ''pager'' None])]"
proof -
  let ?rs = "[contactPointNamed ''mail'' None, contactPointNamed ''ops'' None,
              contactPointNamed ''pager'' None]"
  let ?api = "backend False (Inr (configWith ?rs))"
  have h1: "\<not> shouldUseK8sApi ?api (js ''grafana'')"
    by (simp add: backend_def)
  have h2: "getAlertmanagerConfiguration ?api (js ''grafana'') = Inr (configWith ?rs)"
    by (simp add: backend_def)
  have h3: "receivers (alertmanager_config (configWith ?rs)) = Some ?rs"
    by (simp add: configWith_def)
  have h4: "distinct (map name ?rs)"
    by (simp add: contactPointNamed_def js_def)
  have h5: "js ''ops'' \<in> set (map name ?rs)"
    by (simp add: contactPointNamed_def)
  have e: "fst (useDeleteContactPoint ?api (js ''grafana'') (js ''ops''))
     = [GetAlertmanagerConfiguration (js ''grafana''),
        UpdateAlertmanagerConfiguration (js ''grafana'')
          (configWith [contactPointNamed ''mail'' None, contactPointNamed ''pager'' None])]"
    by (simp add: useDeleteContactPoint_def removeReceiver_def backend_def configWith_def
        contactPointNamed_def js_def)
  from C2_delete_legacy [OF h1 h2 h3 h4 h5] h1 h4 h5 e show ?thesis
    by (intro conjI)
qed

subsection \<open>C3: the two shape mappings\<close>

text \<open>
  C3 as the spec words it: for every contact point and every identifier, converting to a
  receiver resource and parsing back gives a contact point with that id, the same name
  and the same integration configs. For the contact point \<^verbatim>\<open>{name: "ops"}\<close>, which
  has no configs, and the id \<^verbatim>\<open>"b3Bz"\<close> the parsed contact point has no id and has
  the empty list as its configs.
\<close>

theorem C3_roundtrip_counterexample:
  "parseK8sReceiver neverProvisioned
     (grafanaContactPointToK8sReceiver (contactPointNamed ''ops'' None) (Some (js ''b3Bz'')))
   = Inr \<lparr>id' = None, name = js ''ops'', provisioned = Some False,
          grafana_managed_receiver_configs = Some []\<rparr>
   \<and> (None :: jsstring option) \<noteq> Some (js ''b3Bz'')
   \<and> Some [] \<noteq> grafana_managed_receiver_configs (contactPointNamed ''ops'' None)"
  by (simp add: parseK8sReceiver_def grafanaContactPointToK8sReceiver_def
      contactPointNamed_def neverProvisioned_def js_def)

text \<open>
  C3, amended: for every contact point and every non-empty identifier, the receiver
  resource made by \<^verbatim>\<open>grafanaContactPointToK8sReceiver\<close> has the identifier as its
  metadata name, the name of the contact point as its title, and as integrations the
  configs of the contact point, or the empty list when it has none; parsing the resource
  back with \<^verbatim>\<open>parseK8sReceiver\<close> gives a contact point with the same name and with
  those integrations as its configs.
\<close>

theorem C3_roundtrip:
  assumes "truthy ident"
  shows "metadata (grafanaContactPointToK8sReceiver cp ident)
           = Some \<lparr>ObjectMeta.name = ident, uid = None\<rparr>
       \<and> title (spec (grafanaContactPointToK8sReceiver cp ident)) = name cp
       \<and> integrations (spec (grafanaContactPointToK8sReceiver cp ident))
           = (case grafana_managed_receiver_configs cp of None \<Rightarrow> [] | Some cs \<Rightarrow> cs)
       \<and> (\<exists>cp'. parseK8sReceiver prov (grafanaContactPointToK8sReceiver cp ident) = Inr cp'
             \<and> name cp' = name cp
             \<and> grafana_managed_receiver_configs cp'
                = Some (case grafana_managed_receiver_configs cp of
                          None \<Rightarrow> [] | Some cs \<Rightarrow> cs))"
  using assms by (simp add: parseK8sReceiver_def grafanaContactPointToK8sReceiver_def)

theorem C3_roundtrip_witness:
  "truthy (Some (js ''b3Bz''))
   \<and> (\<exists>cp'. parseK8sReceiver neverProvisioned
          (grafanaContactPointToK8sReceiver
             (contactPointNamed ''ops'' (Some [plainConfig, apiConfig]))
             (Some (js ''b3Bz''))) = Inr cp'
        \<and> name cp' = js ''ops''
        \<and> grafana_managed_receiver_configs cp' = Some [plainConfig, apiConfig])"
proof -
  have h: "truthy (Some (js ''b3Bz''))" by (simp add: js_def)
  from C3_roundtrip [OF h, of "contactPointNamed ''ops'' (Some [plainConfig, apiConfig])"
      neverProvisioned] h
  show ?thesis by (simp add: contactPointNamed_def)
qed

subsection \<open>C4: lookup by name decodes percent escapes\<close>




subsection \<open>C5: validating a contact point name\<close>

text \<open>
  C5 as the spec words it: in all cases the validator returns an optional message and
  never throws. On the legacy backend, with validation not skipped, a failed
  configuration fetch rejects the promise of the validator with the error of the fetch.
\<close>

theorem C5_never_throws_counterexample:
  "snd (useValidateContactPoint (backend False (Inl 500)) (js ''grafana'') (js ''ops'') False)
   = Inl 500"
  by (simp add: useValidateContactPoint_def backend_def)

text \<open>
  C5, amended: the validator yields the duplicate-name message exactly when the backend
  is the legacy one, validation is not skipped, the configuration fetch succeeds and some
  receiver of the fetched configuration has a name equal to the candidate value; it
  yields no other message; for the structured backend it sends no request and yields no
  message; and its promise is rejected exactly when the backend is the legacy one,
  validation is not skipped and the configuration fetch fails, with the error of the
  fetch.
\<close>

theorem C5_validate:
  "((snd (useValidateContactPoint api alertmanager v skipValidation)
       = Inr (Some (duplicateMessage v)))
      = (\<not> shouldUseK8sApi api alertmanager \<and> \<not> skipValidation
         \<and> (\<exists>config rs r. getAlertmanagerConfiguration api alertmanager = Inr config
               \<and> receivers (alertmanager_config config) = Some rs
               \<and> r \<in> set rs \<and> name r = v)))
   \<and> (\<forall>m. snd (useValidateContactPoint api alertmanager v skipValidation) = Inr (Some m)
          \<longrightarrow> m = duplicateMessage v)
   \<and> (shouldUseK8sApi api alertmanager \<longrightarrow>
        useValidateContactPoint api alertmanager v skipValidation = ([], Inr None))
   \<and> ((snd (useValidateContactPoint api alertmanager v skipValidation) = Inl e)
      = (\<not> shouldUseK8sApi api alertmanager \<and> \<not> skipValidation
         \<and> getAlertmanagerConfiguration api alertmanager = Inl e))"
  by (auto simp add: useValidateContactPoint_def Let_def find_None_iff
      split: sum.splits option.splits)

theorem C5_validate_witness:
  "\<not> shouldUseK8sApi
       (backend False (Inr (configWith [contactPointNamed ''mail'' None,
                                         contactPointNamed ''ops'' None])))
       (js ''grafana'')
   \<and> snd (useValidateContactPoint
          (backend False (Inr (configWith [contactPointNamed ''mail'' None,
                                            contactPointNamed ''ops'' None])))
          (js ''grafana'') (js ''ops'') False)
     = Inr (Some (duplicateMessage (js ''ops'')))
   \<and> shouldUseK8sApi
       (backend True (Inr (configWith [contactPointNamed ''mail'' None,
                                        contactPointNamed ''ops'' None])))
       (js ''grafana'')
   \<and> useValidateContactPoint
          (backend True (Inr (configWith [contactPointNamed ''mail'' None,
                                           contactPointNamed ''ops'' None])))
          (js ''grafana'') (js ''ops'') False
     = ([], Inr None)"
proof -
  let ?rs = "[contactPointNamed ''mail'' None, contactPointNamed ''ops'' None]"
  let ?config = "configWith ?rs"
  have f: "getAlertmanagerConfiguration (backend False (Inr ?config)) (js ''grafana'')
             = Inr ?config"
    by (simp add: backend_def)
  have r: "receivers (alertmanager_config ?config) = Some ?rs"
    by (simp add: configWith_def)
  have m: "contactPointNamed ''ops'' None \<in> set ?rs"
    "name (contactPointNamed ''ops'' None) = js ''ops''"
    by (simp_all add: contactPointNamed_def)
  from f r m have ex: "\<exists>config rs r.
          getAlertmanagerConfiguration (backend False (Inr ?config)) (js ''grafana'')
            = Inr config
          \<and> receivers (alertmanager_config config) = Some rs
          \<and> r \<in> set rs \<and> name r = js ''ops''"
    by blast
  have l: "\<not> shouldUseK8sApi (backend False (Inr ?config)) (js ''grafana'')"
    by (simp add: backend_def)
  have k: "shouldUseK8sApi (backend True (Inr ?config)) (js ''grafana'')"
    by (simp add: backend_def)
  note legacy = C5_validate [of "backend False (Inr ?config)" "js ''grafana''" "js ''ops''"
      False]
  note k8s = C5_validate [of "backend True (Inr ?config)" "js ''grafana''" "js ''ops''"
      False]
  from legacy l ex have a: "snd (useValidateContactPoint (backend False (Inr ?config))
      (js ''grafana'') (js ''ops'') False) = Inr (Some (duplicateMessage (js ''ops'')))"
    by blast
  from k8s k have b: "useValidateContactPoint (backend True (Inr ?config))
      (js ''grafana'') (js ''ops'') False = ([], Inr None)"
    by blast
  from l a k b show ?thesis by (intro conjI)
qed

subsection \<open>C6: the fields of a normalized contact point\<close>

text \<open>
  C6 as the spec words it: a contact point fetched through either backend exposes the same
  set of fields, among them an id, a name, a provisioned flag and the integration
  configs. The legacy item \<^verbatim>\<open>{name: "ops"}\<close> is normalized to a contact point that
  exposes its name only, the resource of the same contact point to one that exposes all
  four fields.
\<close>

theorem C6_same_fields_counterexample:
  "useFetchGrafanaContactPoints neverProvisioned False
     \<lparr>isLoading = False, data = Some [contactPointNamed ''ops'' None]\<rparr>
     \<lparr>isLoading = False, data = None\<rparr>
   = Inr \<lparr>isLoading = False, data = Some [contactPointNamed ''ops'' None]\<rparr>
   \<and> useFetchGrafanaContactPoints neverProvisioned True
     \<lparr>isLoading = False, data = None\<rparr>
     \<lparr>isLoading = False, data = Some \<lparr>items = [opsResource]\<rparr>\<rparr>
   = Inr \<lparr>isLoading = False,
          data = Some [\<lparr>id' = Some (js ''b3Bz''), name = js ''ops'',
                        provisioned = Some False,
                        grafana_managed_receiver_configs = Some [plainConfig]\<rparr>]\<rparr>
   \<and> exposedFields (contactPointNamed ''ops'' None) = [''name'']
   \<and> exposedFields \<lparr>id' = Some (js ''b3Bz''), name = js ''ops'',
                      provisioned = Some False,
                      grafana_managed_receiver_configs = Some [plainConfig]\<rparr>
      = [''id'', ''name'', ''provisioned'', ''grafana_managed_receiver_configs'']"
  by (simp add: useFetchGrafanaContactPoints_def useK8sContactPoints_def
      selectContactPointsList_def markProvisioned_def parseK8sReceiver_def
      contactPointNamed_def opsResource_def neverProvisioned_def exposedFields_def)

text \<open>
  C6, amended: both backends normalize to the one contact point record, and every fetched
  contact point exposes a name. One fetched through the structured backend also exposes a
  provisioned flag and the integration configs, and its id is the uid of the metadata of
  the resource. One fetched through the legacy list endpoint keeps the id, the name and
  the configs of the fetched item, each of the first and the last exposed only when the
  item has it, and exposes a provisioned flag exactly when it has configs.
\<close>

theorem C6_fields:
  assumes "useFetchGrafanaContactPoints prov useK8sApi listResult k8sResult = Inr r"
    and "data r = Some cps" and "cp \<in> set cps"
  shows "''name'' \<in> set (exposedFields cp)
       \<and> (useK8sApi \<longrightarrow>
            ''provisioned'' \<in> set (exposedFields cp)
            \<and> ''grafana_managed_receiver_configs'' \<in> set (exposedFields cp)
            \<and> (\<exists>d item m. data k8sResult = Some d \<and> item \<in> set (items d)
                  \<and> metadata item = Some m \<and> id' cp = uid m))
       \<and> (\<not> useK8sApi \<longrightarrow>
            (''provisioned'' \<in> set (exposedFields cp))
              = (''grafana_managed_receiver_configs'' \<in> set (exposedFields cp))
            \<and> (\<exists>its item. data listResult = Some its \<and> item \<in> set its
                  \<and> id' cp = id' item \<and> name cp = name item
                  \<and> grafana_managed_receiver_configs cp
                     = grafana_managed_receiver_configs item))"
proof (cases useK8sApi)
  case True
  with assms have "useFetchGrafanaContactPoints prov True listResult k8sResult = Inr r"
    by simp
  from fetched_k8s[OF this assms(2,3)] obtain d item where
    d: "data k8sResult = Some d" "item \<in> set (items d)"
    and p: "parseK8sReceiver prov item = Inr cp" by blast
  from p obtain m where m: "metadata item = Some m" "id' cp = uid m"
    and f: "provisioned cp \<noteq> None" "grafana_managed_receiver_configs cp \<noteq> None"
    by (auto simp add: parseK8sReceiver_def split: option.splits)
  from d m have "\<exists>d item m. data k8sResult = Some d \<and> item \<in> set (items d)
                  \<and> metadata item = Some m \<and> id' cp = uid m" by blast
  with True f show ?thesis
    by (simp only: exposed_name exposed_provisioned exposed_configs) blast
next
  case False
  with assms have "useFetchGrafanaContactPoints prov False listResult k8sResult = Inr r"
    by simp
  from fetched_legacy[OF this assms(2,3)] obtain its item where
    i: "data listResult = Some its" "item \<in> set its" and c: "cp = markProvisioned item"
    by blast
  from c have e: "id' cp = id' item" "name cp = name item"
    "grafana_managed_receiver_configs cp = grafana_managed_receiver_configs item"
    and q: "(provisioned cp = None) = (grafana_managed_receiver_configs cp = None)"
    by (simp_all add: markProvisioned_def)
  from i e have "\<exists>its item. data listResult = Some its \<and> item \<in> set its
                  \<and> id' cp = id' item \<and> name cp = name item
                  \<and> grafana_managed_receiver_configs cp
                     = grafana_managed_receiver_configs item" by blast
  with False q show ?thesis
    by (simp only: exposed_name exposed_provisioned exposed_configs) blast
qed

theorem C6_fields_witness:
  "useFetchGrafanaContactPoints neverProvisioned False
     \<lparr>isLoading = False, data = Some [contactPointNamed ''ops'' (Some [apiConfig])]\<rparr>
     \<lparr>isLoading = False, data = None\<rparr>
   = Inr \<lparr>isLoading = False,
          data = Some [(contactPointNamed ''ops'' (Some [apiConfig]))
                         \<lparr>provisioned := Some True\<rparr>]\<rparr>
   \<and> ''name'' \<in> set (exposedFields
         ((contactPointNamed ''ops'' (Some [apiConfig]))\<lparr>provisioned := Some True\<rparr>))
   \<and> (''provisioned'' \<in> set (exposedFields
         ((contactPointNamed ''ops'' (Some [apiConfig]))\<lparr>provisioned := Some True\<rparr>)))
     = (''grafana_managed_receiver_configs'' \<in> set (exposedFields
         ((contactPointNamed ''ops'' (Some [apiConfig]))\<lparr>provisioned := Some True\<rparr>)))"
proof -
  let ?cp = "(contactPointNamed ''ops'' (Some [apiConfig]))\<lparr>provisioned := Some True\<rparr>"
  let ?r = "\<lparr>isLoading = False, data = Some [?cp]\<rparr>"
  have e: "useFetchGrafanaContactPoints neverProvisioned False
     \<lparr>isLoading = False, data = Some [contactPointNamed ''ops'' (Some [apiConfig])]\<rparr>
     \<lparr>isLoading = False, data = None\<rparr> = Inr ?r"
    by (simp add: useFetchGrafanaContactPoints_def useK8sContactPoints_def
        selectContactPointsList_def markProvisioned_def contactPointNamed_def
        apiConfig_def js_def)
  have d: "data ?r = Some [?cp]" by simp
  have i: "?cp \<in> set [?cp]" by simp
  from C6_fields [OF e d i] e show ?thesis by blast
qed

subsection \<open>C7: create or replace on the structured backend\<close>

text \<open>
  C7: on the structured backend the operation calls the create endpoint exactly when no
  identifier is supplied, and then this is its only request; it calls the replace
  endpoint exactly when an identifier and an original name are supplied, and then its
  only request is the replace addressed by that identifier. As in the source
  (\<^verbatim>\<open>!id\<close>, \<^verbatim>\<open>if (originalName)\<close>), a value is supplied when it is neither
  \<^verbatim>\<open>undefined\<close> nor the empty string.
\<close>

theorem C7_create_or_replace:
  assumes "shouldUseK8sApi api alertmanager"
  shows "((\<exists>ns k. CreateNamespacedReceiver ns k
             \<in> set (fst (useCreateOrUpdateContactPoint api legacy alertmanager contactPoint
                  originalName ident))) = (\<not> truthy ident))
       \<and> ((\<exists>i ns k. ReplaceNamespacedReceiver i ns k
             \<in> set (fst (useCreateOrUpdateContactPoint api legacy alertmanager contactPoint
                  originalName ident))) = (truthy ident \<and> truthy originalName))
       \<and> (\<not> truthy ident \<longrightarrow>
            fst (useCreateOrUpdateContactPoint api legacy alertmanager contactPoint
                  originalName ident)
            = [CreateNamespacedReceiver (getK8sNamespace api)
                 (grafanaContactPointToK8sReceiver contactPoint ident)])
       \<and> (\<forall>i. ident = Some i \<and> truthy ident \<and> truthy originalName \<longrightarrow>
            fst (useCreateOrUpdateContactPoint api legacy alertmanager contactPoint
                  originalName ident)
            = [ReplaceNamespacedReceiver i (getK8sNamespace api)
                 (grafanaContactPointToK8sReceiver contactPoint ident)])"
  using assms by (cases ident) (simp_all add: useCreateOrUpdateContactPoint_def Let_def)

theorem C7_create_or_replace_witness:
  "shouldUseK8sApi (backend True (Inl 404)) (js ''grafana'')
   \<and> fst (useCreateOrUpdateContactPoint (backend True (Inl 404)) noLegacy (js ''grafana'')
           (contactPointNamed ''ops'' (Some [plainConfig])) None None)
     = [CreateNamespacedReceiver (js ''default'')
          \<lparr>metadata = None,
           spec = \<lparr>title = js ''ops'', integrations = [plainConfig]\<rparr>\<rparr>]
   \<and> fst (useCreateOrUpdateContactPoint (backend True (Inl 404)) noLegacy (js ''grafana'')
           (contactPointNamed ''ops'' (Some [plainConfig])) (Some (js ''ops''))
           (Some (js ''b3Bz'')))
     = [ReplaceNamespacedReceiver (js ''b3Bz'') (js ''default'')
          \<lparr>metadata = Some \<lparr>ObjectMeta.name = Some (js ''b3Bz''), uid = None\<rparr>,
           spec = \<lparr>title = js ''ops'', integrations = [plainConfig]\<rparr>\<rparr>]"
proof -
  let ?api = "backend True (Inl 404)"
  let ?cp = "contactPointNamed ''ops'' (Some [plainConfig])"
  have k: "shouldUseK8sApi ?api (js ''grafana'')"
    by (simp add: backend_def)
  have t: "truthy (Some (js ''b3Bz''))" "truthy (Some (js ''ops''))" "\<not> truthy None"
    by (simp_all add: js_def)
  have ns: "getK8sNamespace ?api = js ''default''"
    by (simp add: backend_def)
  have g1: "grafanaContactPointToK8sReceiver ?cp None
      = \<lparr>metadata = None, spec = \<lparr>title = js ''ops'', integrations = [plainConfig]\<rparr>\<rparr>"
    by (simp add: grafanaContactPointToK8sReceiver_def contactPointNamed_def)
  have g2: "grafanaContactPointToK8sReceiver ?cp (Some (js ''b3Bz''))
      = \<lparr>metadata = Some \<lparr>ObjectMeta.name = Some (js ''b3Bz''), uid = None\<rparr>,
         spec = \<lparr>title = js ''ops'', integrations = [plainConfig]\<rparr>\<rparr>"
    using t(1) by (simp add: grafanaContactPointToK8sReceiver_def contactPointNamed_def)
  from C7_create_or_replace [OF k, of noLegacy ?cp None None] t(3)
  have a: "fst (useCreateOrUpdateContactPoint ?api noLegacy (js ''grafana'') ?cp None None)
      = [CreateNamespacedReceiver (getK8sNamespace ?api)
           (grafanaContactPointToK8sReceiver ?cp None)]"
    by blast
  from C7_create_or_replace [OF k, of noLegacy ?cp "Some (js ''ops'')" "Some (js ''b3Bz'')"]
    t(1,2)
  have b: "fst (useCreateOrUpdateContactPoint ?api noLegacy (js ''grafana'') ?cp
           (Some (js ''ops'')) (Some (js ''b3Bz'')))
      = [ReplaceNamespacedReceiver (js ''b3Bz'') (getK8sNamespace ?api)
           (grafanaContactPointToK8sReceiver ?cp (Some (js ''b3Bz'')))]"
    by blast
  from k a b show ?thesis by (simp only: ns g1 g2) 
qed

subsection \<open>C8: an identifier without an original name\<close>

text \<open>
  C8: on the structured backend, called with an identifier but without an original name,
  the operation sends no request, neither create nor replace, and resolves to
  \<^verbatim>\<open>undefined\<close>.
\<close>

theorem C8_id_without_original_name:
  assumes "shouldUseK8sApi api alertmanager"
    and "truthy ident" and "\<not> truthy originalName"
  shows "useCreateOrUpdateContactPoint api legacy alertmanager contactPoint originalName ident
         = ([], Inr None)"
  using assms by (cases ident) (simp_all add: useCreateOrUpdateContactPoint_def)

theorem C8_id_without_original_name_witness:
  "shouldUseK8sApi (backend True (Inl 404)) (js ''grafana'')
   \<and> truthy (Some (js ''b3Bz'')) \<and> \<not> truthy None
   \<and> useCreateOrUpdateContactPoint (backend True (Inl 404)) noLegacy (js ''grafana'')
        (contactPointNamed ''ops'' (Some [plainConfig])) None (Some (js ''b3Bz''))
      = ([], Inr None)"
proof -
  have k: "shouldUseK8sApi (backend True (Inl 404)) (js ''grafana'')"
    by (simp add: backend_def)
  have t: "truthy (Some (js ''b3Bz''))" by (simp add: js_def)
  have o: "\<not> truthy None" by simp
  from C8_id_without_original_name [OF k t o, of noLegacy
      "contactPointNamed ''ops'' (Some [plainConfig])"] k t o
  show ?thesis by (intro conjI)
qed

subsection \<open>C9: a legacy delete without configuration data\<close>

text \<open>
  C9: on the legacy backend, when the configuration fetch of the delete operation gives
  no data, the operation sends nothing but that fetch, so no configuration is written,
  and resolves to \<^verbatim>\<open>undefined\<close>.
\<close>

theorem C9_delete_no_data:
  assumes "\<not> shouldUseK8sApi api alertmanager"
    and "getAlertmanagerConfiguration api alertmanager = Inl e"
  shows "useDeleteContactPoint api alertmanager n
         = ([GetAlertmanagerConfiguration alertmanager], Inr None)"
  using assms by (simp add: useDeleteContactPoint_def)

theorem C9_delete_no_data_witness:
  "\<not> shouldUseK8sApi (backend False (Inl 500)) (js ''grafana'')
   \<and> getAlertmanagerConfiguration (backend False (Inl 500)) (js ''grafana'') = Inl 500
   \<and> useDeleteContactPoint (backend False (Inl 500)) (js ''grafana'') (js ''ops'')
      = ([GetAlertmanagerConfiguration (js ''grafana'')], Inr None)"
proof -
  have k: "\<not> shouldUseK8sApi (backend False (Inl 500)) (js ''grafana'')"
    by (simp add: backend_def)
  have f: "getAlertmanagerConfiguration (backend False (Inl 500)) (js ''grafana'') = Inl 500"
    by (simp add: backend_def)
  from C9_delete_no_data [OF k f, of "js ''ops''"] k f show ?thesis by (intro conjI)
qed

subsection \<open>C10: the provisioned flag of a legacy contact point\<close>

text \<open>
  C10: a contact point fetched through the legacy list endpoint is marked provisioned
  exactly when at least one of its receiver configs carries a provenance marker, that is,
  a \<^verbatim>\<open>provenance\<close> that is truthy (neither \<^verbatim>\<open>undefined\<close> nor the empty string).
\<close>

theorem C10_provisioned:
  assumes "useFetchGrafanaContactPoints prov False listResult k8sResult = Inr r"
    and "data r = Some cps" and "cp \<in> set cps"
  shows "(provisioned cp = Some True) =
         (\<exists>cs c. grafana_managed_receiver_configs cp = Some cs \<and> c \<in> set cs
            \<and> truthy (provenance c))"
proof -
  from fetched_legacy[OF assms] obtain item where "cp = markProvisioned item" by blast
  then show ?thesis by (simp only: markProvisioned_flag)
qed

theorem C10_provisioned_witness:
  "useFetchGrafanaContactPoints neverProvisioned False
     \<lparr>isLoading = False,
      data = Some [contactPointNamed ''mail'' (Some [plainConfig, apiConfig]),
                   contactPointNamed ''ops'' (Some [plainConfig])]\<rparr>
     \<lparr>isLoading = False, data = None\<rparr>
   = Inr \<lparr>isLoading = False,
          data = Some [(contactPointNamed ''mail'' (Some [plainConfig, apiConfig]))
                         \<lparr>provisioned := Some True\<rparr>,
                       (contactPointNamed ''ops'' (Some [plainConfig]))
                         \<lparr>provisioned := Some False\<rparr>]\<rparr>
   \<and> (\<exists>cs c. grafana_managed_receiver_configs
                ((contactPointNamed ''mail'' (Some [plainConfig, apiConfig]))
                   \<lparr>provisioned := Some True\<rparr>) = Some cs
          \<and> c \<in> set cs \<and> truthy (provenance c))
   \<and> \<not> (\<exists>cs c. grafana_managed_receiver_configs
                ((contactPointNamed ''ops'' (Some [plainConfig]))
                   \<lparr>provisioned := Some False\<rparr>) = Some cs
          \<and> c \<in> set cs \<and> truthy (provenance c))"
proof -
  let ?mail = "(contactPointNamed ''mail'' (Some [plainConfig, apiConfig]))
                 \<lparr>provisioned := Some True\<rparr>"
  let ?ops = "(contactPointNamed ''ops'' (Some [plainConfig]))\<lparr>provisioned := Some False\<rparr>"
  let ?r = "\<lparr>isLoading = False, data = Some [?mail, ?ops]\<rparr>"
  have e: "useFetchGrafanaContactPoints neverProvisioned False
     \<lparr>isLoading = False,
      data = Some [contactPointNamed ''mail'' (Some [plainConfig, apiConfig]),
                   contactPointNamed ''ops'' (Some [plainConfig])]\<rparr>
     \<lparr>isLoading = False, data = None\<rparr> = Inr ?r"
    by (simp add: useFetchGrafanaContactPoints_def useK8sContactPoints_def
        selectContactPointsList_def markProvisioned_def contactPointNamed_def
        apiConfig_def plainConfig_def js_def)
  have d: "data ?r = Some [?mail, ?ops]" by simp
  have i: "?mail \<in> set [?mail, ?ops]" "?ops \<in> set [?mail, ?ops]" by simp_all
  have p: "provisioned ?mail = Some True" "provisioned ?ops \<noteq> Some True" by simp_all
  from C10_provisioned [OF e d i(1)] p(1)
  have a: "\<exists>cs c. grafana_managed_receiver_configs ?mail = Some cs
          \<and> c \<in> set cs \<and> truthy (provenance c)" by blast
  from C10_provisioned [OF e d i(2)] p(2)
  have b: "\<not> (\<exists>cs c. grafana_managed_receiver_configs ?ops = Some cs
          \<and> c \<in> set cs \<and> truthy (provenance c))" by blast
  from e a b show ?thesis by (intro conjI)
qed

end
